theory Spec2Isabelle
  imports Complex_Main
begin

section \<open>House price prediction service: model of \<open>src/app.py\<close>\<close>

text \<open>
  The theory embeds the three module-level slots of \<open>app.py\<close> (\<open>loaded_model\<close>,
  \<open>model_metadata\<close>, \<open>model_info\<close>) as a record that every operation takes and returns,
  and the functions \<open>load_model_from_file\<close>, \<open>predict_price\<close>, \<open>calculate_confidence\<close>
  and \<open>api_model_info\<close> as HOL functions over it. Every \<open>try ... except Exception\<close> of
  the source is a branch of the corresponding function.
\<close>

subsection \<open>Python floats\<close>

text \<open>
  A Python \<open>float\<close> is an IEEE 754 double: a finite number (\<open>Fin 0\<close> is the positive
  zero), the negative zero, one of the two infinities or NaN. \<open>Fin r\<close> is the double
  whose value is exactly \<open>r\<close>; a decimal literal \<open>d\<close> of the source, of a form field or
  of a JSON file is the double \<open>fl d\<close> nearest to it. An operation computes the exact
  real result of its operands and rounds it to the nearest double, a tie going to the
  even mantissa, and a result beyond the largest double becomes an infinity.
\<close>

datatype pyfloat = Fin real | NegZero | PInf | NInf | NaN

text \<open>The number of binary digits of a natural number.\<close>

fun bit_length :: "nat \<Rightarrow> nat" where
  "bit_length n = (if n = 0 then 0 else Suc (bit_length (n div 2)))"

text \<open>For \<open>x > 0\<close>, the exponent \<open>e\<close> with \<open>2^e \<le> x < 2^(e+1)\<close>.\<close>

definition binade :: "real \<Rightarrow> int" where
  "binade x =
     (if 1 \<le> x then int (bit_length (nat \<lfloor>x\<rfloor>)) - 1
      else - int (bit_length (nat \<lceil>1 / x\<rceil> - 1)))"

text \<open>Rounding a non-negative number to the nearest integer, a tie going to the even one.\<close>

definition round_half_even :: "real \<Rightarrow> nat" where
  "round_half_even x =
     (let f = nat \<lfloor>x\<rfloor>; d = x - real f
      in if d < 1 / 2 then f
         else if 1 / 2 < d then f + 1
         else if even f then f else f + 1)"

text \<open>
  For \<open>x > 0\<close>: the nearest multiple of \<open>2^(e - 52)\<close>, where \<open>e\<close> is the exponent of
  \<open>x\<close>, not below -1022 (the subnormal range has the spacing \<open>2^(-1074)\<close>). This is the
  53-bit rounding with an unbounded exponent; \<open>fl_mag\<close> adds the overflow to infinity.
\<close>

definition nearest_double :: "real \<Rightarrow> real" where
  "nearest_double x =
     real (round_half_even (x * 2 powi (52 - max (binade x) (- 1022)))) *
     2 powi (max (binade x) (- 1022) - 52)"

definition fl_mag :: "real \<Rightarrow> pyfloat" where
  "fl_mag x = (if 2 ^ 1024 \<le> nearest_double x then PInf else Fin (nearest_double x))"

fun py_neg :: "pyfloat \<Rightarrow> pyfloat" where
  "py_neg (Fin r) = (if r = 0 then NegZero else Fin (- r))"
| "py_neg NegZero = Fin 0"
| "py_neg PInf = NInf"
| "py_neg NInf = PInf"
| "py_neg NaN = NaN"

text \<open>The double a real result is rounded to; a negative result that underflows is \<open>-0.0\<close>.\<close>

definition fl :: "real \<Rightarrow> pyfloat" where
  "fl x = (if x = 0 then Fin 0 else if 0 < x then fl_mag x else py_neg (fl_mag (- x)))"

text \<open>\<open>x <= k\<close> and \<open>x > k\<close> for a finite constant \<open>k\<close>; every comparison with NaN is false.\<close>

fun py_le :: "pyfloat \<Rightarrow> real \<Rightarrow> bool" where
  "py_le (Fin r) k = (r \<le> k)"
| "py_le NegZero k = (0 \<le> k)"
| "py_le NInf k = True"
| "py_le PInf k = False"
| "py_le NaN k = False"

fun py_gt :: "pyfloat \<Rightarrow> real \<Rightarrow> bool" where
  "py_gt (Fin r) k = (k < r)"
| "py_gt NegZero k = (k < 0)"
| "py_gt PInf k = True"
| "py_gt NInf k = False"
| "py_gt NaN k = False"

text \<open>\<open>x <= y\<close> on two floats.\<close>

fun py_leq :: "pyfloat \<Rightarrow> pyfloat \<Rightarrow> bool" where
  "py_leq NaN y = False"
| "py_leq x NaN = False"
| "py_leq NInf y = True"
| "py_leq x PInf = True"
| "py_leq PInf y = False"
| "py_leq x NInf = False"
| "py_leq (Fin a) (Fin b) = (a \<le> b)"
| "py_leq (Fin a) NegZero = (a \<le> 0)"
| "py_leq NegZero (Fin b) = (0 \<le> b)"
| "py_leq NegZero NegZero = True"

fun py_abs :: "pyfloat \<Rightarrow> pyfloat" where
  "py_abs (Fin r) = Fin \<bar>r\<bar>"
| "py_abs NegZero = Fin 0"
| "py_abs PInf = PInf"
| "py_abs NInf = PInf"
| "py_abs NaN = NaN"

text \<open>
  \<open>x - y\<close>: the difference of two equal infinities is NaN; an exact zero difference is
  \<open>+0.0\<close>, except \<open>-0.0 - 0.0\<close>.
\<close>

fun py_sub :: "pyfloat \<Rightarrow> pyfloat \<Rightarrow> pyfloat" where
  "py_sub NaN y = NaN"
| "py_sub x NaN = NaN"
| "py_sub PInf PInf = NaN"
| "py_sub PInf y = PInf"
| "py_sub NInf NInf = NaN"
| "py_sub NInf y = NInf"
| "py_sub x PInf = NInf"
| "py_sub x NInf = PInf"
| "py_sub (Fin a) (Fin b) = (if a = b then Fin 0 else fl (a - b))"
| "py_sub (Fin a) NegZero = (if a = 0 then Fin 0 else fl a)"
| "py_sub NegZero (Fin b) = (if b = 0 then NegZero else fl (- b))"
| "py_sub NegZero NegZero = Fin 0"

text \<open>
  \<open>x / y\<close>: Python raises \<open>ZeroDivisionError\<close> on a zero divisor, whatever the dividend
  (the value \<open>None\<close> here); a finite value over an infinity is a zero, an infinity over
  an infinity is NaN; a zero quotient has the sign of the exact quotient.
\<close>

fun py_truediv :: "pyfloat \<Rightarrow> pyfloat \<Rightarrow> pyfloat option" where
  "py_truediv x NegZero = None"
| "py_truediv x (Fin b) =
     (if b = 0 then None
      else Some (case x of
             Fin a \<Rightarrow> (if a = 0 then (if 0 < b then Fin 0 else NegZero) else fl (a / b))
           | NegZero \<Rightarrow> (if 0 < b then NegZero else Fin 0)
           | PInf \<Rightarrow> (if 0 < b then PInf else NInf)
           | NInf \<Rightarrow> (if 0 < b then NInf else PInf)
           | NaN \<Rightarrow> NaN))"
| "py_truediv x NaN = Some NaN"
| "py_truediv x PInf =
     Some (case x of
             Fin a \<Rightarrow> (if 0 \<le> a then Fin 0 else NegZero)
           | NegZero \<Rightarrow> NegZero
           | _ \<Rightarrow> NaN)"
| "py_truediv x NInf =
     Some (case x of
             Fin a \<Rightarrow> (if 0 \<le> a then NegZero else Fin 0)
           | NegZero \<Rightarrow> Fin 0
           | _ \<Rightarrow> NaN)"

subsection \<open>JSON values as \<open>json.load\<close> returns them\<close>

text \<open>
  \<open>json.load\<close> returns \<open>None\<close>, a \<open>bool\<close>, an \<open>int\<close>, a \<open>float\<close> (the literals
  \<open>NaN\<close> and \<open>Infinity\<close> are accepted), a \<open>str\<close>, a \<open>list\<close> or a \<open>dict\<close> with
  string keys. A \<open>dict\<close> is the list of its items, with distinct keys. \<open>JNull\<close> is
  Python's \<open>None\<close>, also as the initial value of the metadata slot.
\<close>

datatype json =
    JNull
  | JBool bool
  | JInt int
  | JFloat pyfloat
  | JStr string
  | JList "json list"
  | JDict "(string \<times> json) list"

text \<open>The truth value Python gives an object in \<open>if x\<close> and \<open>not x\<close>.\<close>

fun truthy :: "json \<Rightarrow> bool" where
  "truthy JNull = False"
| "truthy (JBool b) = b"
| "truthy (JInt i) = (i \<noteq> 0)"
| "truthy (JFloat x) = (x \<noteq> Fin 0 \<and> x \<noteq> NegZero)"
| "truthy (JStr s) = (s \<noteq> [])"
| "truthy (JList xs) = (xs \<noteq> [])"
| "truthy (JDict kvs) = (kvs \<noteq> [])"

fun type_name :: "json \<Rightarrow> string" where
  "type_name JNull = ''NoneType''"
| "type_name (JBool b) = ''bool''"
| "type_name (JInt i) = ''int''"
| "type_name (JFloat x) = ''float''"
| "type_name (JStr s) = ''str''"
| "type_name (JList xs) = ''list''"
| "type_name (JDict kvs) = ''dict''"

definition quoted :: "string \<Rightarrow> string" where
  "quoted s = [CHR 0x27] @ s @ [CHR 0x27]"

text \<open>\<open>s in t\<close> on two strings: \<open>s\<close> occurs in \<open>t\<close> as a contiguous substring.\<close>

fun is_prefix :: "string \<Rightarrow> string \<Rightarrow> bool" where
  "is_prefix [] t = True"
| "is_prefix (a # s) [] = False"
| "is_prefix (a # s) (b # t) = (a = b \<and> is_prefix s t)"

fun is_substring :: "string \<Rightarrow> string \<Rightarrow> bool" where
  "is_substring s [] = (s = [])"
| "is_substring s (b # t) = (is_prefix s (b # t) \<or> is_substring s t)"

text \<open>
  \<open>key in obj\<close> for a string key: key membership on a \<open>dict\<close>, element membership on a
  \<open>list\<close>, substring on a \<open>str\<close>, and \<open>TypeError\<close> on everything else (\<open>Inl\<close> holds the
  text of the exception).
\<close>

fun py_contains :: "json \<Rightarrow> string \<Rightarrow> string + bool" where
  "py_contains (JDict kvs) k = Inr (map_of kvs k \<noteq> None)"
| "py_contains (JList xs) k = Inr (JStr k \<in> set xs)"
| "py_contains (JStr s) k = Inr (is_substring k s)"
| "py_contains j k = Inl (''argument of type '' @ quoted (type_name j) @ '' is not iterable'')"

text \<open>
  \<open>obj[key]\<close> for a string key: only a \<open>dict\<close> that has the key gives a value; a missing
  key raises \<open>KeyError\<close> and every other object raises \<open>TypeError\<close> (both \<open>None\<close> here: the
  only place that subscripts is inside a \<open>try\<close> that discards the exception).
\<close>

fun py_getitem :: "json \<Rightarrow> string \<Rightarrow> json option" where
  "py_getitem (JDict kvs) k = map_of kvs k"
| "py_getitem j k = None"

text \<open>
  The float an object becomes as an operand of \<open>-\<close> or \<open>/\<close> with a float: a \<open>float\<close>
  itself, a \<open>bool\<close> as 0.0 or 1.0, an \<open>int\<close> rounded to the nearest double. \<open>None\<close> is an
  exception: \<open>OverflowError\<close> for an \<open>int\<close> too large for a double, \<open>TypeError\<close> for
  every other object.
\<close>

fun as_number :: "json \<Rightarrow> pyfloat option" where
  "as_number (JInt i) =
     (case fl (of_int i) of PInf \<Rightarrow> None | NInf \<Rightarrow> None | x \<Rightarrow> Some x)"
| "as_number (JFloat x) = Some x"
| "as_number (JBool b) = Some (Fin (if b then 1 else 0))"
| "as_number j = None"

text \<open>
  \<open>obj > 0\<close>: an \<open>int\<close> is compared exactly, whatever its size; \<open>None\<close> is the
  \<open>TypeError\<close> of the objects that have no order with a number.
\<close>

fun gt_zero :: "json \<Rightarrow> bool option" where
  "gt_zero (JInt i) = Some (0 < i)"
| "gt_zero (JFloat x) = Some (py_gt x 0)"
| "gt_zero (JBool b) = Some b"
| "gt_zero j = None"

subsection \<open>The loaded model and the process-wide slots\<close>

text \<open>
  The loaded artifact is opaque to the application: all it does with it is compare it
  with \<open>None\<close> and evaluate \<open>loaded_model.predict(features)[0]\<close>. \<open>predict0\<close> is that
  expression: the number obtained, or the text of the exception raised on the way (an
  object without a \<open>predict\<close> method included). The slot \<open>loaded_model\<close> holds \<open>None\<close> or
  such an object.
\<close>

record model =
  predict0 :: "pyfloat list list \<Rightarrow> string + pyfloat"

record quality_metrics =
  r2_score :: json
  rmse :: json
  mae :: json
  training_samples :: json

record model_info =
  model_path :: string
  metadata_path :: "string option"
  loaded_at :: string
  model_type :: string
  features :: "string list"
  metrics :: "quality_metrics option"

record app_state =
  loaded_model :: "model option"
  model_metadata :: json
  model_info :: "model_info option"

definition initial_state :: app_state where
  "initial_state = \<lparr>loaded_model = None, model_metadata = JNull, model_info = None\<rparr>"

subsection \<open>\<open>calculate_confidence\<close>\<close>

definition feature_names :: "string list" where
  "feature_names = [''Square_Footage'', ''Bedrooms'', ''Total_Bathrooms'']"

text \<open>
  \<open>abs((value - mean_val) / std_val) if std_val > 0 else 0\<close>, on float operands. The
  guard excludes the zero divisor, so the division has a value.
\<close>

definition z_score :: "pyfloat \<Rightarrow> pyfloat \<Rightarrow> pyfloat \<Rightarrow> pyfloat" where
  "z_score v mean_val std_val =
     (if py_gt std_val 0
      then (case py_truediv (py_sub v mean_val) std_val of
              Some q \<Rightarrow> py_abs q
            | None \<Rightarrow> Fin 0)
      else Fin 0)"

text \<open>The \<open>if\<close>/\<open>elif\<close> chain that turns a z-score into the score appended.\<close>

definition point_score :: "pyfloat \<Rightarrow> real" where
  "point_score z =
     (if py_le z 1 then 9 / 10
      else if py_le z 2 then 7 / 10
      else if py_le z 3 then 5 / 10
      else 3 / 10)"

text \<open>
  One iteration of the loop for a feature that is in \<open>ranges\<close>: the four subscripts, the
  z-score and the score. \<open>None\<close> is an exception: a missing key, a standard deviation
  that cannot be compared with 0, or, when it is positive, a mean or a standard deviation
  that cannot be made a float operand. When the standard deviation is not positive the
  z-score is the \<open>int\<close> 0 and the mean is not looked at.
\<close>

definition feature_score :: "json \<Rightarrow> pyfloat \<Rightarrow> real option" where
  "feature_score entry v =
     (case py_getitem entry ''min'' of
        None \<Rightarrow> None
      | Some min_val \<Rightarrow>
     (case py_getitem entry ''max'' of
        None \<Rightarrow> None
      | Some max_val \<Rightarrow>
     (case py_getitem entry ''mean'' of
        None \<Rightarrow> None
      | Some mean_val \<Rightarrow>
     (case py_getitem entry ''std'' of
        None \<Rightarrow> None
      | Some std_val \<Rightarrow>
     (case gt_zero std_val of
        None \<Rightarrow> None
      | Some False \<Rightarrow> Some (point_score (Fin 0))
      | Some True \<Rightarrow>
     (case as_number mean_val of
        None \<Rightarrow> None
      | Some m \<Rightarrow>
     (case as_number std_val of
        None \<Rightarrow> None
      | Some s \<Rightarrow> Some (point_score (z_score v m s)))))))))"

text \<open>
  The loop over \<open>zip(features, values)\<close>, with \<open>confidence_scores\<close> as the accumulator.
  \<open>None\<close>: an exception left the loop.
\<close>

fun score_loop :: "json \<Rightarrow> (string \<times> pyfloat) list \<Rightarrow> real list \<Rightarrow> real list option" where
  "score_loop ranges [] confidence_scores = Some confidence_scores"
| "score_loop ranges ((feature, v) # rest) confidence_scores =
     (case py_contains ranges feature of
        Inl e \<Rightarrow> None
      | Inr False \<Rightarrow> score_loop ranges rest confidence_scores
      | Inr True \<Rightarrow>
          (case py_getitem ranges feature of
             None \<Rightarrow> None
           | Some entry \<Rightarrow>
               (case feature_score entry v of
                  None \<Rightarrow> None
                | Some sc \<Rightarrow> score_loop ranges rest (confidence_scores @ [sc]))))"

text \<open>
  Lines 147 to 156. The scores are the literals 0.9, 0.7, 0.5 and 0.3, at most three of
  them. Their average is taken exactly here: a sum of three of them is an odd number of
  tenths, at least 1/30 away from the thresholds, and for one or two of them the float
  sum and quotient are the doubles nearest to the exact ones, so that the comparisons
  with the doubles 0.8 and 0.6 come out as the exact ones do.
\<close>

definition confidence_label :: "real list \<Rightarrow> string" where
  "confidence_label confidence_scores =
     (if confidence_scores \<noteq> []
      then (let avg_confidence = sum_list confidence_scores / real (length confidence_scores)
            in if avg_confidence \<ge> 8 / 10 then ''High''
               else if avg_confidence \<ge> 6 / 10 then ''Medium''
               else ''Low'')
      else ''Unknown'')"

text \<open>
  The whole function. The first test is outside the \<open>try\<close>: an exception of
  \<open>'feature_ranges' not in model_metadata\<close> reaches the caller (\<open>Inl\<close>). Everything
  after it is inside, and any exception there gives \<open>"Unknown"\<close>.
\<close>

definition calculate_confidence ::
  "json \<Rightarrow> pyfloat \<Rightarrow> pyfloat \<Rightarrow> pyfloat \<Rightarrow> string + string" where
  "calculate_confidence metadata square_footage bedrooms total_bathrooms =
     (if \<not> truthy metadata then Inr ''Unknown''
      else case py_contains metadata ''feature_ranges'' of
        Inl e \<Rightarrow> Inl e
      | Inr False \<Rightarrow> Inr ''Unknown''
      | Inr True \<Rightarrow>
          (case py_getitem metadata ''feature_ranges'' of
             None \<Rightarrow> Inr ''Unknown''
           | Some ranges \<Rightarrow>
               (case score_loop ranges
                       (zip feature_names [square_footage, bedrooms, total_bathrooms]) [] of
                  None \<Rightarrow> Inr ''Unknown''
                | Some confidence_scores \<Rightarrow> Inr (confidence_label confidence_scores))))"

subsection \<open>Currency formatting: the format specification \<open>,.2f\<close>\<close>

text \<open>The character of a decimal digit; it is only applied to numbers below ten.\<close>

definition digit_char :: "nat \<Rightarrow> char" where
  "digit_char d = ''0123456789'' ! d"

text \<open>The decimal digits of a natural number, most significant first.\<close>

fun digits :: "nat \<Rightarrow> string" where
  "digits n = (if n < 10 then [digit_char n] else digits (n div 10) @ [digit_char (n mod 10)])"

text \<open>
  The \<open>,\<close> option: a comma after every third digit, counted from the right. \<open>group3\<close>
  works on the reversed digit string.
\<close>

fun group3 :: "string \<Rightarrow> string" where
  "group3 (a # b # c # d # rest) = a # b # c # CHR '','' # group3 (d # rest)"
| "group3 s = s"

definition thousands :: "string \<Rightarrow> string" where
  "thousands s = rev (group3 (rev s))"

text \<open>
  \<open>.2f\<close> rounds the exact value to the nearest multiple of 1/100, a tie going to the
  even neighbour: \<open>round_half_even\<close> of the number of cents.
\<close>

definition two_digits :: "nat \<Rightarrow> string" where
  "two_digits k = [digit_char (k div 10), digit_char (k mod 10)]"

fun format_fixed2 :: "pyfloat \<Rightarrow> string" where
  "format_fixed2 (Fin r) =
     (let cents = round_half_even (\<bar>r\<bar> * 100)
      in (if r < 0 then ''-'' else []) @ thousands (digits (cents div 100)) @ ''.'' @
         two_digits (cents mod 100))"
| "format_fixed2 NegZero = ''-0.00''"
| "format_fixed2 PInf = ''inf''"
| "format_fixed2 NInf = ''-inf''"
| "format_fixed2 NaN = ''nan''"

definition formatted_price_of :: "pyfloat \<Rightarrow> string" where
  "formatted_price_of prediction = ''$'' @ format_fixed2 prediction"

subsection \<open>\<open>predict_price\<close>\<close>

record prediction_result =
  predicted_price :: pyfloat
  formatted_price :: string
  confidence :: string
  inputs :: "pyfloat \<times> pyfloat \<times> pyfloat"

definition no_model_message :: string where
  "no_model_message = ''No model loaded. Please load a model first.''"

definition invalid_input_message :: string where
  "invalid_input_message = ''All values must be positive numbers.''"

text \<open>
  The function returns the pair \<open>(result, None)\<close> or \<open>(None, message)\<close>: here
  \<open>Inr result\<close> or \<open>Inl message\<close>. The second component of the value below is not in
  the source: it lists the feature matrices with which \<open>loaded_model.predict\<close> was
  called during the call, so that "the model was not invoked" can be stated.
\<close>

definition predict_price ::
  "app_state \<Rightarrow> pyfloat \<Rightarrow> pyfloat \<Rightarrow> pyfloat \<Rightarrow>
     (string + prediction_result) \<times> pyfloat list list list" where
  "predict_price st square_footage bedrooms total_bathrooms =
     (case loaded_model st of
        None \<Rightarrow> (Inl no_model_message, [])
      | Some m \<Rightarrow>
          if py_le square_footage 0 \<or> py_le bedrooms 0 \<or> py_le total_bathrooms 0
          then (Inl invalid_input_message, [])
          else
            (let feats = [[square_footage, bedrooms, total_bathrooms]]
             in case predict0 m feats of
                  Inl e \<Rightarrow> (Inl (''Prediction error: '' @ e), [feats])
                | Inr prediction \<Rightarrow>
                    (case calculate_confidence (model_metadata st)
                            square_footage bedrooms total_bathrooms of
                       Inl e \<Rightarrow> (Inl (''Prediction error: '' @ e), [feats])
                     | Inr conf \<Rightarrow>
                         (Inr \<lparr>predicted_price = prediction,
                               formatted_price = formatted_price_of prediction,
                               confidence = conf,
                               inputs = (square_footage, bedrooms, total_bathrooms)\<rparr>,
                          [feats]))))"

subsection \<open>\<open>load_model_from_file\<close> and \<open>api_model_info\<close>\<close>

text \<open>
  What the function reads from outside the process: the two deserialisers (each gives
  the object read, which may be \<open>None\<close>, or the text of the exception raised, a missing
  file included), \<open>os.path.exists\<close>, \<open>open\<close> followed by \<open>json.load\<close>, and the clock.
\<close>

record environment =
  joblib_load :: "string \<Rightarrow> string + model option"
  pickle_load :: "string \<Rightarrow> string + model option"
  path_exists :: "string \<Rightarrow> bool"
  json_load :: "string \<Rightarrow> string + json"
  now_isoformat :: string

definition endswith :: "string \<Rightarrow> string \<Rightarrow> bool" where
  "endswith s suffix =
     (length suffix \<le> length s \<and> drop (length s - length suffix) s = suffix)"

definition unsupported_format_text :: string where
  "unsupported_format_text = ''Unsupported model file format. Use .joblib or .pkl''"

text \<open>The \<open>except\<close> branch: the slots stay as they are at the moment of the exception.\<close>

definition load_failed :: "string \<Rightarrow> app_state \<Rightarrow> (bool \<times> string) \<times> app_state" where
  "load_failed e st = ((False, ''Error loading model: '' @ e), st)"

text \<open>\<open>d.get(key)\<close> on the items of a \<open>dict\<close>.\<close>

definition dict_get :: "(string \<times> json) list \<Rightarrow> string \<Rightarrow> json" where
  "dict_get kvs k = (case map_of kvs k of None \<Rightarrow> JNull | Some v \<Rightarrow> v)"

text \<open>
  Lines 67 to 75: the quality metrics are copied when the metadata is truthy. The four
  \<open>get\<close> calls come before \<open>update\<close>, and only a \<open>dict\<close> has \<open>get\<close>.
\<close>

definition copy_metrics :: "app_state \<Rightarrow> model_info \<Rightarrow> (bool \<times> string) \<times> app_state" where
  "copy_metrics st info =
     (if truthy (model_metadata st)
      then (case model_metadata st of
              JDict kvs \<Rightarrow>
                ((True, ''Model loaded successfully!''),
                 st\<lparr>model_info := Some (info\<lparr>metrics := Some
                        \<lparr>r2_score = dict_get kvs ''r2_score'',
                         rmse = dict_get kvs ''rmse'',
                         mae = dict_get kvs ''mae'',
                         training_samples = dict_get kvs ''training_samples''\<rparr>\<rparr>)\<rparr>)
            | j \<Rightarrow>
                load_failed (quoted (type_name j) @ '' object has no attribute '' @ quoted ''get'')
                  st)
      else ((True, ''Model loaded successfully!''), st))"

text \<open>Lines 51 to 65, entered once \<open>loaded_model\<close> has been assigned.\<close>

definition load_metadata ::
  "environment \<Rightarrow> app_state \<Rightarrow> string \<Rightarrow> string option \<Rightarrow> (bool \<times> string) \<times> app_state" where
  "load_metadata env st path mpath =
     (let st1 = st\<lparr>model_metadata := JNull\<rparr>;
          info = \<lparr>model_path = path, metadata_path = mpath,
                  loaded_at = now_isoformat env,
                  model_type = ''LinearRegression'',
                  features = feature_names,
                  metrics = None\<rparr>
      in case mpath of
           None \<Rightarrow> copy_metrics (st1\<lparr>model_info := Some info\<rparr>) info
         | Some mp \<Rightarrow>
             if mp \<noteq> [] \<and> path_exists env mp
             then (case json_load env mp of
                     Inl e \<Rightarrow> load_failed e st1
                   | Inr j \<Rightarrow>
                       copy_metrics (st1\<lparr>model_metadata := j, model_info := Some info\<rparr>) info)
             else copy_metrics (st1\<lparr>model_info := Some info\<rparr>) info)"

definition load_model_from_file ::
  "environment \<Rightarrow> app_state \<Rightarrow> string \<Rightarrow> string option \<Rightarrow> (bool \<times> string) \<times> app_state" where
  "load_model_from_file env st path mpath =
     (if endswith path ''.joblib''
      then (case joblib_load env path of
              Inl e \<Rightarrow> load_failed e st
            | Inr obj \<Rightarrow> load_metadata env (st\<lparr>loaded_model := obj\<rparr>) path mpath)
      else if endswith path ''.pkl''
      then (case pickle_load env path of
              Inl e \<Rightarrow> load_failed e st
            | Inr obj \<Rightarrow> load_metadata env (st\<lparr>loaded_model := obj\<rparr>) path mpath)
      else load_failed unsupported_format_text st)"

text \<open>The JSON body \<open>api_model_info\<close> answers with.\<close>

datatype info_response =
    InfoFailure string
  | InfoSuccess "model_info option" json

definition api_model_info :: "app_state \<Rightarrow> info_response" where
  "api_model_info st =
     (case loaded_model st of
        None \<Rightarrow> InfoFailure ''No model loaded''
      | Some m \<Rightarrow> InfoSuccess (model_info st) (model_metadata st))"

subsection \<open>The confidence heuristic as the specification words it\<close>









subsection \<open>Reading a formatted price\<close>

text \<open>
  What "two decimal places and thousands separators" means for a string: groups of
  digits joined by commas, the first group of one to three digits and every other group
  of three, then a point and two digits. \<open>nat_of_digits\<close> reads a digit string back as a
  number.
\<close>

fun join_commas :: "string list \<Rightarrow> string" where
  "join_commas [] = []"
| "join_commas [g] = g"
| "join_commas (g # h # gs) = g @ CHR '','' # join_commas (h # gs)"

definition is_digit :: "char \<Rightarrow> bool" where
  "is_digit c = (c \<in> set ''0123456789'')"

definition digit_value :: "char \<Rightarrow> nat" where
  "digit_value c = of_char c - 48"

definition nat_of_digits :: "string \<Rightarrow> nat" where
  "nat_of_digits s = foldl (\<lambda>n c. 10 * n + digit_value c) 0 s"

text \<open>A model whose prediction is not finite, as after an overflow.\<close>

definition overflowing_model :: model where
  "overflowing_model = \<lparr>predict0 = (\<lambda>rows. Inr PInf)\<rparr>"

subsection \<open>Sample objects\<close>

text \<open>A model that answers 250000 to every request, and a state that holds it.\<close>

definition sample_model :: model where
  "sample_model = \<lparr>predict0 = (\<lambda>rows. Inr (Fin 250000))\<rparr>"

definition sample_state :: app_state where
  "sample_state = \<lparr>loaded_model = Some sample_model, model_metadata = JNull, model_info = None\<rparr>"

text \<open>A second model, with another answer.\<close>

definition other_model :: model where
  "other_model = \<lparr>predict0 = (\<lambda>rows. Inr (Fin 410000))\<rparr>"

text \<open>A model that answers with the square footage it is given.\<close>

definition echo_model :: model where
  "echo_model =
     \<lparr>predict0 = (\<lambda>rows. case rows of [[a, b, c]] \<Rightarrow> Inr a | _ \<Rightarrow> Inl ''bad shape'')\<rparr>"



text \<open>A metadata file with statistics for two of the three features.\<close>

definition sample_ranges :: "(string \<times> json) list" where
  "sample_ranges =
     [(''Square_Footage'',
         JDict [(''min'', JInt 500), (''max'', JInt 5000),
                (''mean'', JInt 2000), (''std'', JInt 500)]),
      (''Bedrooms'',
         JDict [(''min'', JInt 1), (''max'', JInt 6),
                (''mean'', JInt 3), (''std'', JInt 1)])]"

definition sample_items :: "(string \<times> json) list" where
  "sample_items =
     [(''r2_score'', JFloat (fl (91 / 100))),
      (''training_samples'', JInt 800),
      (''feature_ranges'', JDict sample_ranges)]"

definition sample_metadata :: json where
  "sample_metadata = JDict sample_items"

text \<open>
  A models directory with two pickled models, a pickle of \<open>None\<close>, and two metadata
  files, the second of which is not valid JSON.
\<close>

definition sample_environment :: environment where
  "sample_environment =
     \<lparr>joblib_load = (\<lambda>p. Inl (''[Errno 2] No such file or directory: '' @ quoted p)),
      pickle_load = (\<lambda>p. if p = ''saved_models/a.pkl'' then Inr (Some sample_model)
                          else if p = ''saved_models/b.pkl'' then Inr (Some other_model)
                          else if p = ''saved_models/empty.pkl'' then Inr None
                          else Inl (''[Errno 2] No such file or directory: '' @ quoted p)),
      path_exists = (\<lambda>p. p = ''saved_models/a_metadata.json'' \<or>
                          p = ''saved_models/b_metadata.json''),
      json_load = (\<lambda>p. if p = ''saved_models/a_metadata.json'' then Inr sample_metadata
                        else Inl ''Expecting value: line 1 column 1 (char 0)''),
      now_isoformat = ''2024-05-01T09:30:00''\<rparr>"

definition state_after_first_load :: app_state where
  "state_after_first_load =
     snd (load_model_from_file sample_environment initial_state ''saved_models/a.pkl'' None)"

section \<open>Properties\<close>

declare digits.simps [simp del]

declare bit_length.simps [simp del]

lemmas format_defs =
  formatted_price_of_def round_half_even_def Let_def thousands_def digits.simps
  two_digits_def digit_char_def

lemmas fl_eval =
  fl_def fl_mag_def nearest_double_def binade_def round_half_even_def Let_def
  bit_length.simps power_int_minus

subsection \<open>Rounding to a double\<close>

text \<open>
  The exponent found by \<open>binade\<close> is the right one, and the rounding is monotone and
  symmetric: the facts about doubles that the properties of the z-score need.
\<close>

lemma bit_length_bounds:
  "0 < n \<Longrightarrow> 2 ^ (bit_length n - 1) \<le> n \<and> n < 2 ^ bit_length n"
proof (induction n rule: bit_length.induct)
  case (1 n)
  show ?case
  proof (cases "n div 2 = 0")
    case True
    with 1 have "n = 1" by (auto simp: div_eq_0_iff)
    then show ?thesis by (simp add: bit_length.simps)
  next
    case False
    then have ih: "2 ^ (bit_length (n div 2) - 1) \<le> n div 2" "n div 2 < 2 ^ bit_length (n div 2)"
      using 1 by auto
    have pos: "0 < bit_length (n div 2)" using False by (simp add: bit_length.simps)
    have b: "bit_length n = Suc (bit_length (n div 2))" using 1(2) by (simp add: bit_length.simps)
    have "2 ^ (bit_length n - 1) = 2 * 2 ^ (bit_length (n div 2) - 1)"
      using pos b by (cases "bit_length (n div 2)") simp_all
    also have "\<dots> \<le> 2 * (n div 2)" using ih(1) by simp
    also have "\<dots> \<le> n" by simp
    finally have lo: "2 ^ (bit_length n - 1) \<le> n" .
    have "n < 2 * (n div 2) + 2" by presburger
    also have "\<dots> \<le> 2 * 2 ^ bit_length (n div 2)" using ih(2) by simp
    finally have "n < 2 ^ bit_length n" using b by simp
    with lo show ?thesis by simp
  qed
qed

lemma real_pow2_le: "2 ^ k \<le> (n::nat) \<Longrightarrow> (2::real) ^ k \<le> real n"
  by (metis of_nat_le_iff of_nat_numeral of_nat_power)

lemma real_le_pow2: "(n::nat) \<le> 2 ^ k \<Longrightarrow> real n \<le> (2::real) ^ k"
  by (metis of_nat_le_iff of_nat_numeral of_nat_power)

lemma binade_bounds:
  assumes "0 < x"
  shows "2 powi binade x \<le> x" and "x < 2 powi (binade x + 1)"
proof -
  show "2 powi binade x \<le> x"
  proof (cases "1 \<le> x")
    case True
    define n where "n = nat \<lfloor>x\<rfloor>"
    have n1: "0 < n" using True by (simp add: n_def)
    have n2: "real n \<le> x" using True by (simp add: n_def)
    have e: "binade x = int (bit_length n - 1)"
      using True bit_length_bounds [OF n1] n1
      by (cases "bit_length n") (auto simp: binade_def n_def)
    have p: "2 powi binade x = (2::real) ^ (bit_length n - 1)"
      by (simp only: e power_int_of_nat)
    have "(2::real) ^ (bit_length n - 1) \<le> real n"
      using bit_length_bounds [OF n1] by (intro real_pow2_le) simp
    then show ?thesis using n2 p by linarith
  next
    case False
    define n where "n = nat \<lceil>1 / x\<rceil>"
    have t: "1 < 1 / x" using False assms by simp
    have n1: "1 / x \<le> real n" unfolding n_def by linarith
    have n2: "1 < n" using t n1 by (metis less_le_trans of_nat_1 of_nat_less_iff)
    define k where "k = bit_length (n - 1)"
    have e: "binade x = - int k" using False by (simp add: binade_def n_def k_def)
    have p: "2 powi binade x = 1 / (2::real) ^ k"
      by (simp only: e power_int_minus power_int_of_nat inverse_eq_divide)
    have "n - 1 < 2 ^ k" using bit_length_bounds [of "n - 1"] n2 by (simp add: k_def)
    then have "n \<le> 2 ^ k" by simp
    then have "real n \<le> 2 ^ k" by (rule real_le_pow2)
    then have "1 / x \<le> 2 ^ k" using n1 by linarith
    then have "1 \<le> x * 2 ^ k" using assms by (simp add: field_simps)
    then have "1 / 2 ^ k \<le> x" by (simp add: field_simps)
    then show ?thesis using p by linarith
  qed
  show "x < 2 powi (binade x + 1)"
  proof (cases "1 \<le> x")
    case True
    define n where "n = nat \<lfloor>x\<rfloor>"
    have n1: "0 < n" using True by (simp add: n_def)
    have n2: "x < real n + 1" unfolding n_def using True by linarith
    have e: "binade x + 1 = int (bit_length n)"
      using True by (simp add: binade_def n_def)
    have p: "2 powi (binade x + 1) = (2::real) ^ bit_length n"
      by (simp only: e power_int_of_nat)
    have "n + 1 \<le> 2 ^ bit_length n" using bit_length_bounds [OF n1] by simp
    then have "real (n + 1) \<le> 2 ^ bit_length n" by (rule real_le_pow2)
    then have "real n + 1 \<le> 2 ^ bit_length n" by simp
    then show ?thesis using n2 p by linarith
  next
    case False
    define n where "n = nat \<lceil>1 / x\<rceil>"
    have t: "1 < 1 / x" using False assms by simp
    have n0: "1 / x \<le> real n" unfolding n_def by linarith
    have n1: "real n - 1 < 1 / x" unfolding n_def using t by linarith
    have n2: "1 < n" using t n0 by (metis less_le_trans of_nat_1 of_nat_less_iff)
    define k where "k = bit_length (n - 1)"
    have kpos: "0 < k" using n2 by (simp add: k_def bit_length.simps)
    have e: "binade x + 1 = - int (k - 1)" using False kpos by (simp add: binade_def n_def k_def)
    have p: "2 powi (binade x + 1) = 1 / (2::real) ^ (k - 1)"
      by (simp only: e power_int_minus power_int_of_nat inverse_eq_divide)
    have "2 ^ (k - 1) \<le> n - 1" using bit_length_bounds [of "n - 1"] n2 by (simp add: k_def)
    then have "(2::real) ^ (k - 1) \<le> real (n - 1)" by (rule real_pow2_le)
    then have "(2::real) ^ (k - 1) \<le> real n - 1" using n2 by (simp add: of_nat_diff)
    then have "(2::real) ^ (k - 1) < 1 / x" using n1 by linarith
    then have "x * 2 ^ (k - 1) < 1" using assms by (simp add: field_simps)
    then have "x < 1 / 2 ^ (k - 1)" by (simp add: field_simps)
    then show ?thesis using p by linarith
  qed
qed

lemma binade_mono: "0 < a \<Longrightarrow> a \<le> b \<Longrightarrow> binade a \<le> binade b"
proof (rule ccontr)
  assume a: "0 < a" "a \<le> b" and "\<not> binade a \<le> binade b"
  then have "binade b + 1 \<le> binade a" by simp
  then have "(2::real) powi (binade b + 1) \<le> 2 powi binade a"
    by (intro power_int_increasing) simp_all
  moreover have "b < 2 powi (binade b + 1)" using a by (intro binade_bounds) simp
  moreover have "2 powi binade a \<le> a" using a by (intro binade_bounds)
  ultimately show False using a(2) by linarith
qed

lemma round_half_even_nat [simp]: "round_half_even (real n) = n"
  by (simp add: round_half_even_def)

lemma round_half_even_mono: "0 \<le> a \<Longrightarrow> a \<le> b \<Longrightarrow> round_half_even a \<le> round_half_even b"
proof -
  assume a: "0 \<le> a" "a \<le> b"
  define f where "f = nat \<lfloor>a\<rfloor>"
  define g where "g = nat \<lfloor>b\<rfloor>"
  have fa: "real f \<le> a" "a < real f + 1" unfolding f_def using a by linarith+
  have gb: "real g \<le> b" "b < real g + 1" unfolding g_def using a by linarith+
  have ra: "round_half_even a =
             (if a - real f < 1 / 2 then f
              else if 1 / 2 < a - real f then f + 1
              else if even f then f else f + 1)"
    unfolding round_half_even_def Let_def f_def by (rule refl)
  have rb: "round_half_even b =
             (if b - real g < 1 / 2 then g
              else if 1 / 2 < b - real g then g + 1
              else if even g then g else g + 1)"
    unfolding round_half_even_def Let_def g_def by (rule refl)
  have fg: "f \<le> g" using a by (simp add: f_def g_def floor_mono nat_mono)
  show ?thesis
  proof (cases "f = g")
    case True
    then show ?thesis using a(2) by (auto simp: ra rb)
  next
    case False
    then have "f + 1 \<le> g" using fg by simp
    moreover have "round_half_even a \<le> f + 1" by (simp add: ra)
    moreover have "g \<le> round_half_even b" by (simp add: rb)
    ultimately show ?thesis by linarith
  qed
qed

lemma nearest_double_nonneg: "0 \<le> nearest_double x"
  by (simp add: nearest_double_def)

lemma pow2_split: "(2::real) powi (a + b) = 2 powi a * 2 powi b"
  by (rule power_int_add) simp

lemma nearest_double_upper:
  assumes "0 < x"
  shows "nearest_double x \<le> 2 powi (max (binade x) (- 1022) + 1)"
proof -
  define e where "e = max (binade x) (- 1022)"
  have "x < 2 powi (binade x + 1)" using assms by (rule binade_bounds)
  also have "\<dots> \<le> 2 powi (e + 1)" by (intro power_int_increasing) (simp_all add: e_def)
  finally have "x * 2 powi (52 - e) \<le> 2 powi (e + 1) * 2 powi (52 - e)"
    by (intro mult_right_mono) (simp_all add: less_imp_le)
  also have "\<dots> = 2 powi 53" by (simp add: pow2_split [symmetric])
  also have "\<dots> = real (2 ^ 53)" by simp
  finally have "round_half_even (x * 2 powi (52 - e)) \<le> round_half_even (real (2 ^ 53))"
    using assms by (intro round_half_even_mono) (simp_all add: less_imp_le)
  then have "round_half_even (x * 2 powi (52 - e)) \<le> 2 ^ 53"
    by (simp only: round_half_even_nat)
  then have "real (round_half_even (x * 2 powi (52 - e))) \<le> 2 ^ 53"
    by (rule real_le_pow2)
  then have "nearest_double x \<le> 2 ^ 53 * 2 powi (e - 52)"
    unfolding nearest_double_def e_def [symmetric] by (intro mult_right_mono) simp_all
  also have "\<dots> = 2 powi 53 * 2 powi (e - 52)" by simp
  also have "\<dots> = 2 powi (53 + (e - 52))" by (rule pow2_split [symmetric])
  also have "53 + (e - 52) = e + 1" by simp
  finally show ?thesis by (simp add: e_def)
qed

lemma nearest_double_lower:
  assumes "0 < x" and "- 1022 \<le> binade x"
  shows "2 powi binade x \<le> nearest_double x"
proof -
  define e where "e = binade x"
  have e: "max (binade x) (- 1022) = e" using assms(2) by (simp add: e_def)
  have "2 powi e \<le> x" unfolding e_def using assms(1) by (rule binade_bounds)
  then have "2 powi e * 2 powi (52 - e) \<le> x * 2 powi (52 - e)"
    by (intro mult_right_mono) simp_all
  moreover have "2 powi e * 2 powi (52 - e) = (2::real) powi 52" by (simp add: pow2_split [symmetric])
  moreover have "(2::real) powi 52 = real (2 ^ 52)" by simp
  ultimately have "real (2 ^ 52) \<le> x * 2 powi (52 - e)" by simp
  then have "round_half_even (real (2 ^ 52)) \<le> round_half_even (x * 2 powi (52 - e))"
    by (intro round_half_even_mono) simp_all
  then have "2 ^ 52 \<le> round_half_even (x * 2 powi (52 - e))"
    by (simp only: round_half_even_nat)
  then have "(2::real) ^ 52 \<le> real (round_half_even (x * 2 powi (52 - e)))"
    by (rule real_pow2_le)
  then have "2 ^ 52 * 2 powi (e - 52) \<le> nearest_double x"
    unfolding nearest_double_def e by (intro mult_right_mono) simp_all
  moreover have "(2::real) ^ 52 * 2 powi (e - 52) = 2 powi 52 * 2 powi (e - 52)" by simp
  moreover have "(2::real) powi 52 * 2 powi (e - 52) = 2 powi (52 + (e - 52))"
    by (rule pow2_split [symmetric])
  moreover have "52 + (e - 52) = e" by simp
  ultimately show ?thesis by (simp add: e_def)
qed

lemma nearest_double_mono:
  assumes "0 < a" and "a \<le> b"
  shows "nearest_double a \<le> nearest_double b"
proof -
  define ea where "ea = max (binade a) (- 1022)"
  define eb where "eb = max (binade b) (- 1022)"
  have b: "0 < b" using assms by simp
  have le: "ea \<le> eb" using binade_mono [OF assms] by (simp add: ea_def eb_def)
  show ?thesis
  proof (cases "ea = eb")
    case True
    have "a * 2 powi (52 - ea) \<le> b * 2 powi (52 - ea)"
      using assms(2) by (intro mult_right_mono) simp_all
    then have "round_half_even (a * 2 powi (52 - ea)) \<le> round_half_even (b * 2 powi (52 - ea))"
      using assms(1) by (intro round_half_even_mono) (simp_all add: less_imp_le)
    then have "real (round_half_even (a * 2 powi (52 - ea))) * 2 powi (ea - 52) \<le>
               real (round_half_even (b * 2 powi (52 - ea))) * 2 powi (ea - 52)"
      by (intro mult_right_mono) simp_all
    then show ?thesis
      unfolding nearest_double_def ea_def [symmetric] eb_def [symmetric] True [symmetric] .
  next
    case False
    then have lt: "ea + 1 \<le> eb" using le by simp
    then have "- 1022 < eb" by (simp add: ea_def)
    then have bb: "eb = binade b" "- 1022 \<le> binade b" by (simp_all add: eb_def)
    have "nearest_double a \<le> 2 powi (ea + 1)" unfolding ea_def using assms(1) by (rule nearest_double_upper)
    also have "\<dots> \<le> 2 powi eb" using lt by (intro power_int_increasing) simp_all
    also have "\<dots> \<le> nearest_double b" unfolding bb(1) using b bb(2) by (rule nearest_double_lower)
    finally show ?thesis .
  qed
qed

lemma fl_mag_mono: "0 < a \<Longrightarrow> a \<le> b \<Longrightarrow> py_leq (fl_mag a) (fl_mag b)"
  using nearest_double_mono [of a b] by (auto simp: fl_mag_def)

lemma fl_mag_cases: "fl_mag x = PInf \<or> (\<exists>y. 0 \<le> y \<and> fl_mag x = Fin y)"
  using nearest_double_nonneg [of x] by (auto simp: fl_mag_def)



lemma py_abs_fl_mag [simp]: "py_abs (fl_mag x) = fl_mag x"
  using fl_mag_cases [of x] by auto

lemma py_abs_py_neg [simp]: "py_abs (py_neg z) = py_abs z"
  by (cases z) auto

lemma py_abs_fl: "x \<noteq> 0 \<Longrightarrow> py_abs (fl x) = fl_mag \<bar>x\<bar>"
  by (simp add: fl_def)

lemma fl_abs: "x \<noteq> 0 \<Longrightarrow> fl \<bar>x\<bar> = fl_mag \<bar>x\<bar>"
  by (simp add: fl_def)

lemma abs_truediv:
  "py_gt s 0 \<Longrightarrow> map_option py_abs (py_truediv x s) = py_truediv (py_abs x) s"
proof (cases s)
  case (Fin b)
  assume "py_gt s 0"
  then have b: "0 < b" using Fin by simp
  show ?thesis
  proof (cases x)
    case (Fin a)
    show ?thesis
    proof (cases "a = 0")
      case True
      then show ?thesis using b \<open>s = Fin b\<close> Fin by simp
    next
      case False
      then have ne: "a / b \<noteq> 0" using b by simp
      have "\<bar>a\<bar> / b = \<bar>a / b\<bar>" using b by simp
      then show ?thesis using b \<open>s = Fin b\<close> Fin False py_abs_fl [OF ne] fl_abs [OF ne]
        by simp
    qed
  qed (use b \<open>s = Fin b\<close> in auto)
qed (cases x; auto)+


subsection \<open>Validation and the missing model in \<open>predict_price\<close>\<close>

lemma prediction_error_text:
  "''Prediction error: '' @ e \<noteq> invalid_input_message"
  "''Prediction error: '' @ e \<noteq> no_model_message"
  by (simp_all add: invalid_input_message_def no_model_message_def)

lemma nan_or_positive_not_le: "x = NaN \<or> py_gt x 0 \<Longrightarrow> \<not> py_le x 0"
  by (cases x) auto

text \<open>
  Claim C4. For strictly positive square footage, bedrooms and bathrooms, a call made
  while no model is loaded returns the message "No model loaded. Please load a model
  first.", which is not the validation message, and the model's prediction operation is
  not called (there is no model to call).
\<close>

theorem predict_price_no_model:
  assumes "loaded_model st = None"
    and "py_gt square_footage 0" and "py_gt bedrooms 0" and "py_gt total_bathrooms 0"
  shows "predict_price st square_footage bedrooms total_bathrooms =
           (Inl ''No model loaded. Please load a model first.'', []) \<and>
         fst (predict_price st square_footage bedrooms total_bathrooms) \<noteq>
           Inl ''All values must be positive numbers.''"
  using assms by (simp add: predict_price_def no_model_message_def)

theorem predict_price_no_model_witness:
  "predict_price initial_state (Fin 1500) (Fin 3) (Fin 2) =
     (Inl ''No model loaded. Please load a model first.'', [])"
  using predict_price_no_model [of initial_state "Fin 1500" "Fin 3" "Fin 2"]
  by (simp add: initial_state_def)

text \<open>
  Claim C1, as stated: a call with a feature that is not positive fails with "All values
  must be positive numbers." whether or not a model is loaded. The source tests
  \<open>loaded_model is None\<close> before it validates, so with no model loaded a zero square
  footage is answered with the "no model" message.
\<close>

theorem invalid_input_counterexample:
  "py_le (Fin 0) 0 \<and>
   predict_price initial_state (Fin 0) (Fin 3) (Fin 2) =
     (Inl ''No model loaded. Please load a model first.'', []) \<and>
   fst (predict_price initial_state (Fin 0) (Fin 3) (Fin 2)) \<noteq>
     Inl ''All values must be positive numbers.''"
  by (simp add: predict_price_def initial_state_def no_model_message_def)

text \<open>
  Claim C1, amended. When one of the three features is \<open>\<le> 0\<close>, the call fails without
  calling the model's prediction operation: with the validation message "All values must
  be positive numbers." if a model is loaded, and with the "no model" message if none is.
\<close>

theorem predict_price_non_positive:
  assumes "py_le square_footage 0 \<or> py_le bedrooms 0 \<or> py_le total_bathrooms 0"
  shows "predict_price st square_footage bedrooms total_bathrooms =
           (if loaded_model st = None
            then (Inl ''No model loaded. Please load a model first.'', [])
            else (Inl ''All values must be positive numbers.'', []))"
  using assms
  by (auto simp: predict_price_def no_model_message_def invalid_input_message_def
           split: option.splits)

theorem predict_price_non_positive_witness:
  "predict_price sample_state (Fin 1500) (Fin 0) (Fin 2) =
     (Inl ''All values must be positive numbers.'', []) \<and>
   predict_price initial_state (Fin 1500) (Fin 0) (Fin 2) =
     (Inl ''No model loaded. Please load a model first.'', [])"
  using predict_price_non_positive [of "Fin 1500" "Fin 0" "Fin 2" sample_state]
    predict_price_non_positive [of "Fin 1500" "Fin 0" "Fin 2" initial_state]
  by (simp add: sample_state_def initial_state_def)

text \<open>
  Claim C10. \<open>NaN <= 0\<close> is false, so with a model loaded a NaN feature never causes the
  validation message: the call fails with "All values must be positive numbers." exactly
  when some feature that is not NaN is \<open>\<le> 0\<close>. In particular a call in which at least
  one feature is NaN and every feature is NaN or positive passes the test of line 88; the
  model's prediction operation is called once, with the feature row that holds the NaN,
  and what the call returns is made from the model's answer on that row: its exception
  as a "Prediction error", or its prediction in the result.
\<close>

theorem predict_price_nan_passes_validation:
  assumes "loaded_model st = Some m"
  shows "\<not> py_le NaN 0 \<and>
         (fst (predict_price st square_footage bedrooms total_bathrooms) =
            Inl ''All values must be positive numbers.'' \<longleftrightarrow>
          (square_footage \<noteq> NaN \<and> py_le square_footage 0) \<or>
          (bedrooms \<noteq> NaN \<and> py_le bedrooms 0) \<or>
          (total_bathrooms \<noteq> NaN \<and> py_le total_bathrooms 0)) \<and>
         ((square_footage = NaN \<or> bedrooms = NaN \<or> total_bathrooms = NaN) \<and>
          (square_footage = NaN \<or> py_gt square_footage 0) \<and>
          (bedrooms = NaN \<or> py_gt bedrooms 0) \<and>
          (total_bathrooms = NaN \<or> py_gt total_bathrooms 0) \<longrightarrow>
          fst (predict_price st square_footage bedrooms total_bathrooms) \<noteq>
            Inl ''All values must be positive numbers.'' \<and>
          snd (predict_price st square_footage bedrooms total_bathrooms) =
            [[[square_footage, bedrooms, total_bathrooms]]] \<and>
          fst (predict_price st square_footage bedrooms total_bathrooms) =
            (case predict0 m [[square_footage, bedrooms, total_bathrooms]] of
               Inl e \<Rightarrow> Inl (''Prediction error: '' @ e)
             | Inr prediction \<Rightarrow>
                 (case calculate_confidence (model_metadata st)
                         square_footage bedrooms total_bathrooms of
                    Inl e \<Rightarrow> Inl (''Prediction error: '' @ e)
                  | Inr conf \<Rightarrow>
                      Inr \<lparr>predicted_price = prediction,
                           formatted_price = formatted_price_of prediction,
                           confidence = conf,
                           inputs = (square_footage, bedrooms, total_bathrooms)\<rparr>)))"
proof -
  have nan: "(x \<noteq> NaN \<and> py_le x 0) = py_le x 0" for x
    by (cases x) auto
  have iff: "fst (predict_price st square_footage bedrooms total_bathrooms) =
            Inl ''All values must be positive numbers.'' \<longleftrightarrow>
          py_le square_footage 0 \<or> py_le bedrooms 0 \<or> py_le total_bathrooms 0"
    using assms prediction_error_text(1)
    by (auto simp: predict_price_def Let_def invalid_input_message_def split: sum.splits)
  have called: "snd (predict_price st square_footage bedrooms total_bathrooms) =
            [[[square_footage, bedrooms, total_bathrooms]]]"
    if "\<not> (py_le square_footage 0 \<or> py_le bedrooms 0 \<or> py_le total_bathrooms 0)"
    using assms that by (auto simp: predict_price_def Let_def split: sum.splits)
  have answer: "fst (predict_price st square_footage bedrooms total_bathrooms) =
            (case predict0 m [[square_footage, bedrooms, total_bathrooms]] of
               Inl e \<Rightarrow> Inl (''Prediction error: '' @ e)
             | Inr prediction \<Rightarrow>
                 (case calculate_confidence (model_metadata st)
                         square_footage bedrooms total_bathrooms of
                    Inl e \<Rightarrow> Inl (''Prediction error: '' @ e)
                  | Inr conf \<Rightarrow>
                      Inr \<lparr>predicted_price = prediction,
                           formatted_price = formatted_price_of prediction,
                           confidence = conf,
                           inputs = (square_footage, bedrooms, total_bathrooms)\<rparr>))"
    if "\<not> (py_le square_footage 0 \<or> py_le bedrooms 0 \<or> py_le total_bathrooms 0)"
    using assms that by (auto simp: predict_price_def Let_def split: sum.splits)
  have pass: "\<not> (py_le square_footage 0 \<or> py_le bedrooms 0 \<or> py_le total_bathrooms 0)"
    if "(square_footage = NaN \<or> py_gt square_footage 0) \<and>
        (bedrooms = NaN \<or> py_gt bedrooms 0) \<and>
        (total_bathrooms = NaN \<or> py_gt total_bathrooms 0)"
    using that nan_or_positive_not_le by blast
  have "\<not> py_le NaN 0" by simp
  moreover have "fst (predict_price st square_footage bedrooms total_bathrooms) =
            Inl ''All values must be positive numbers.'' \<longleftrightarrow>
          (square_footage \<noteq> NaN \<and> py_le square_footage 0) \<or>
          (bedrooms \<noteq> NaN \<and> py_le bedrooms 0) \<or>
          (total_bathrooms \<noteq> NaN \<and> py_le total_bathrooms 0)"
    using iff by (simp only: nan)
  ultimately show ?thesis
    using iff called answer pass by (intro conjI impI) blast+
qed

theorem predict_price_nan_passes_validation_witness:
  "predict_price \<lparr>loaded_model = Some echo_model, model_metadata = JNull, model_info = None\<rparr>
     NaN (Fin 3) (Fin 2) =
   (Inr \<lparr>predicted_price = NaN, formatted_price = ''$nan'', confidence = ''Unknown'',
         inputs = (NaN, Fin 3, Fin 2)\<rparr>,
    [[[NaN, Fin 3, Fin 2]]])"
  using predict_price_nan_passes_validation
    [of "\<lparr>loaded_model = Some echo_model, model_metadata = JNull, model_info = None\<rparr>"
        echo_model NaN "Fin 3" "Fin 2"]
  by (simp add: echo_model_def calculate_confidence_def formatted_price_of_def prod_eq_iff)

subsection \<open>Loading\<close>

text \<open>
  Claim C8. A path that ends neither in \<open>.joblib\<close> nor in \<open>.pkl\<close> makes
  \<open>load_model_from_file\<close> return \<open>False\<close> with the message "Error loading model:
  Unsupported model file format. Use .joblib or .pkl": the \<open>ValueError\<close> is caught
  inside the function, nothing is raised to the caller, and the three slots keep their
  values.
\<close>

theorem load_unsupported_format:
  assumes "\<not> endswith path ''.joblib''" and "\<not> endswith path ''.pkl''"
  shows "load_model_from_file env st path mpath =
           ((False, ''Error loading model: Unsupported model file format. Use .joblib or .pkl''),
            st)"
  using assms
  by (simp add: load_model_from_file_def load_failed_def unsupported_format_text_def)

theorem load_unsupported_format_witness:
  "load_model_from_file sample_environment sample_state ''saved_models/model.h5'' None =
     ((False, ''Error loading model: Unsupported model file format. Use .joblib or .pkl''),
      sample_state)"
  using load_unsupported_format [of "''saved_models/model.h5''" sample_environment sample_state None]
  by (simp add: endswith_def)

lemma copy_metrics_success:
  "copy_metrics st info = ((True, msg), st') \<Longrightarrow>
     loaded_model st' = loaded_model st \<and> model_metadata st' = model_metadata st \<and>
     (model_info st = Some info \<longrightarrow>
        (\<exists>i. model_info st' = Some i \<and> model_path i = model_path info))"
  by (auto simp: copy_metrics_def load_failed_def split: if_splits json.splits)

lemma load_metadata_success:
  assumes "load_metadata env st path mpath = ((True, msg), st')"
  shows "loaded_model st' = loaded_model st \<and>
         (\<exists>i. model_info st' = Some i \<and> model_path i = path)"
  using assms
  by (auto simp: load_metadata_def Let_def load_failed_def
           split: option.splits if_splits sum.splits dest!: copy_metrics_success)

lemmas sample_load_defs =
  load_model_from_file_def load_metadata_def copy_metrics_def load_failed_def endswith_def
  sample_environment_def initial_state_def dict_get_def Let_def

text \<open>
  Claim C7, as stated: after every successful load of a path, the request for model
  information returns a \<open>model_info\<close> with that path. The source stores whatever the
  deserialiser returns and reports success (line 75) without looking at it. A pickle of
  \<open>None\<close> therefore loads "successfully", and \<open>api_model_info\<close>, which tests
  \<open>loaded_model is None\<close> (line 310), answers "No model loaded".
\<close>

theorem none_pickle_counterexample:
  "fst (load_model_from_file sample_environment initial_state ''saved_models/empty.pkl'' None) =
     (True, ''Model loaded successfully!'') \<and>
   api_model_info
     (snd (load_model_from_file sample_environment initial_state ''saved_models/empty.pkl'' None)) =
     InfoFailure ''No model loaded''"
  by (simp add: sample_load_defs api_model_info_def)

text \<open>
  Claim C7, amended. After a successful load of a path, \<open>model_info\<close> holds that path
  and \<open>loaded_model\<close> holds the object the file deserialised to. When that object is not
  \<open>None\<close>, the request for model information answers with success and with this
  \<open>model_info\<close>, whose \<open>model_path\<close> is the path just loaded; when it is \<open>None\<close>, the
  request answers "No model loaded".
\<close>

theorem load_then_model_info:
  assumes "load_model_from_file env st path mpath = ((True, msg), st')"
  shows "\<exists>info. model_info st' = Some info \<and> model_path info = path \<and>
                (joblib_load env path = Inr (loaded_model st') \<or>
                 pickle_load env path = Inr (loaded_model st')) \<and>
                api_model_info st' =
                  (if loaded_model st' = None then InfoFailure ''No model loaded''
                   else InfoSuccess (Some info) (model_metadata st'))"
proof -
  obtain obj where obj: "joblib_load env path = Inr obj \<or> pickle_load env path = Inr obj"
    and md: "load_metadata env (st\<lparr>loaded_model := obj\<rparr>) path mpath = ((True, msg), st')"
    using assms
    by (auto simp: load_model_from_file_def load_failed_def split: if_splits sum.splits)
  from load_metadata_success [OF md] obtain info where
    "loaded_model st' = obj" "model_info st' = Some info" "model_path info = path"
    by auto
  then show ?thesis
    using obj by (auto simp: api_model_info_def split: option.splits)
qed

theorem load_then_model_info_witness:
  "\<exists>info. api_model_info
            (snd (load_model_from_file sample_environment initial_state ''saved_models/a.pkl''
                    (Some ''saved_models/a_metadata.json''))) =
          InfoSuccess (Some info) sample_metadata \<and>
          model_path info = ''saved_models/a.pkl''"
proof -
  let ?r = "load_model_from_file sample_environment initial_state ''saved_models/a.pkl''
              (Some ''saved_models/a_metadata.json'')"
  have ok: "?r = ((True, ''Model loaded successfully!''), snd ?r)"
    by (simp add: sample_load_defs sample_metadata_def sample_items_def)
  have md: "model_metadata (snd ?r) = sample_metadata"
    by (simp add: sample_load_defs sample_metadata_def sample_items_def)
  have lm: "loaded_model (snd ?r) = Some sample_model"
    by (simp add: sample_load_defs sample_metadata_def sample_items_def)
  show ?thesis
    using load_then_model_info [OF ok] md lm by auto
qed

lemma models_differ: "sample_model \<noteq> other_model"
proof
  assume "sample_model = other_model"
  then have "predict0 sample_model [] = predict0 other_model []" by simp
  then show False by (simp add: sample_model_def other_model_def)
qed

lemma state_after_first_load_eq:
  "state_after_first_load =
     \<lparr>loaded_model = Some sample_model, model_metadata = JNull,
      model_info = Some \<lparr>model_path = ''saved_models/a.pkl'', metadata_path = None,
                         loaded_at = ''2024-05-01T09:30:00'', model_type = ''LinearRegression'',
                         features = feature_names, metrics = None\<rparr>\<rparr>"
  by (simp add: state_after_first_load_def sample_load_defs)

text \<open>
  Claim C2 says that after every load, failed ones included, \<open>model_info\<close> describes the
  model in \<open>loaded_model\<close>. The source assigns \<open>loaded_model\<close> (lines 42 and 46) before
  it reads the metadata file and assigns \<open>model_info\<close> only after (line 59): when
  \<open>json.load\<close> raises in between, the \<open>except\<close> branch returns with the new model in
  the slot and the previous \<open>model_info\<close> untouched. Here \<open>a.pkl\<close> is loaded first, then
  \<open>b.pkl\<close> with a metadata file that is not valid JSON: the load reports failure, the
  slot holds the model of \<open>b.pkl\<close>, and \<open>model_info\<close> still names \<open>a.pkl\<close>, whose
  model is another one.
\<close>

theorem failed_metadata_load_leaves_stale_info:
  "fst (load_model_from_file sample_environment state_after_first_load ''saved_models/b.pkl''
          (Some ''saved_models/b_metadata.json'')) =
     (False, ''Error loading model: Expecting value: line 1 column 1 (char 0)'') \<and>
   loaded_model (snd (load_model_from_file sample_environment state_after_first_load
          ''saved_models/b.pkl'' (Some ''saved_models/b_metadata.json''))) = Some other_model \<and>
   map_option model_path (model_info (snd (load_model_from_file sample_environment
          state_after_first_load ''saved_models/b.pkl'' (Some ''saved_models/b_metadata.json'')))) =
     Some ''saved_models/a.pkl'' \<and>
   pickle_load sample_environment ''saved_models/a.pkl'' = Inr (Some sample_model) \<and>
   sample_model \<noteq> other_model"
  using models_differ
  by (simp add: state_after_first_load_eq)
     (simp add: sample_load_defs)

subsection \<open>Confidence without metadata\<close>

lemma confidence_without_statistics:
  assumes "metadata = JNull \<or>
           (\<exists>kvs. metadata = JDict kvs \<and> map_of kvs ''feature_ranges'' = None)"
  shows "calculate_confidence metadata a b c = Inr ''Unknown''"
  using assms by (auto simp: calculate_confidence_def)

lemma load_without_metadata:
  assumes "endswith path ''.joblib'' \<and> joblib_load env path = Inr (Some m) \<or>
           \<not> endswith path ''.joblib'' \<and> endswith path ''.pkl'' \<and>
             pickle_load env path = Inr (Some m)"
    and "mpath = None \<or> mpath = Some [] \<or> (\<exists>mp. mpath = Some mp \<and> \<not> path_exists env mp)"
  shows "load_model_from_file env st path mpath =
           ((True, ''Model loaded successfully!''),
            \<lparr>loaded_model = Some m, model_metadata = JNull,
             model_info = Some \<lparr>model_path = path, metadata_path = mpath,
                                loaded_at = now_isoformat env, model_type = ''LinearRegression'',
                                features = feature_names, metrics = None\<rparr>\<rparr>)"
  using assms
  by (cases st) (auto simp: load_model_from_file_def load_metadata_def copy_metrics_def Let_def)

text \<open>
  Claim C6, in two parts. First: for strictly positive inputs and a loaded model that
  returns a prediction, when the metadata slot is empty or holds a dictionary without the
  key \<open>feature_ranges\<close>, the result carries the confidence label "Unknown". Second: a
  load whose model file deserialises, given no metadata path (or an empty one, or one
  that does not exist), succeeds and leaves the metadata slot empty.
\<close>

theorem absent_metadata_unknown_confidence:
  assumes "py_gt square_footage 0" and "py_gt bedrooms 0" and "py_gt total_bathrooms 0"
  shows "(loaded_model st = Some m \<and>
          predict0 m [[square_footage, bedrooms, total_bathrooms]] = Inr p \<and>
          (model_metadata st = JNull \<or>
           (\<exists>kvs. model_metadata st = JDict kvs \<and> map_of kvs ''feature_ranges'' = None))
          \<longrightarrow> fst (predict_price st square_footage bedrooms total_bathrooms) =
                Inr \<lparr>predicted_price = p, formatted_price = formatted_price_of p,
                     confidence = ''Unknown'',
                     inputs = (square_footage, bedrooms, total_bathrooms)\<rparr>) \<and>
         ((endswith path ''.joblib'' \<and> joblib_load env path = Inr (Some m') \<or>
           \<not> endswith path ''.joblib'' \<and> endswith path ''.pkl'' \<and>
             pickle_load env path = Inr (Some m')) \<and>
          (mpath = None \<or> mpath = Some [] \<or> (\<exists>mp. mpath = Some mp \<and> \<not> path_exists env mp))
          \<longrightarrow> load_model_from_file env st0 path mpath =
                ((True, ''Model loaded successfully!''),
                 \<lparr>loaded_model = Some m', model_metadata = JNull,
                  model_info = Some \<lparr>model_path = path, metadata_path = mpath,
                                     loaded_at = now_isoformat env,
                                     model_type = ''LinearRegression'',
                                     features = feature_names, metrics = None\<rparr>\<rparr>))"
proof (intro conjI impI)
  assume h: "loaded_model st = Some m \<and>
          predict0 m [[square_footage, bedrooms, total_bathrooms]] = Inr p \<and>
          (model_metadata st = JNull \<or>
           (\<exists>kvs. model_metadata st = JDict kvs \<and> map_of kvs ''feature_ranges'' = None))"
  have pos: "\<not> (py_le square_footage 0 \<or> py_le bedrooms 0 \<or> py_le total_bathrooms 0)"
    using assms nan_or_positive_not_le by blast
  have "calculate_confidence (model_metadata st) square_footage bedrooms total_bathrooms =
          Inr ''Unknown''"
    using h confidence_without_statistics by blast
  then show "fst (predict_price st square_footage bedrooms total_bathrooms) =
                Inr \<lparr>predicted_price = p, formatted_price = formatted_price_of p,
                     confidence = ''Unknown'',
                     inputs = (square_footage, bedrooms, total_bathrooms)\<rparr>"
    using h pos by (simp add: predict_price_def Let_def)
next
  assume h: "(endswith path ''.joblib'' \<and> joblib_load env path = Inr (Some m') \<or>
           \<not> endswith path ''.joblib'' \<and> endswith path ''.pkl'' \<and>
             pickle_load env path = Inr (Some m')) \<and>
          (mpath = None \<or> mpath = Some [] \<or> (\<exists>mp. mpath = Some mp \<and> \<not> path_exists env mp))"
  show "load_model_from_file env st0 path mpath =
                ((True, ''Model loaded successfully!''),
                 \<lparr>loaded_model = Some m', model_metadata = JNull,
                  model_info = Some \<lparr>model_path = path, metadata_path = mpath,
                                     loaded_at = now_isoformat env,
                                     model_type = ''LinearRegression'',
                                     features = feature_names, metrics = None\<rparr>\<rparr>)"
    by (rule load_without_metadata [OF conjunct1 [OF h] conjunct2 [OF h]])
qed

theorem absent_metadata_unknown_confidence_witness:
  "fst (predict_price state_after_first_load (Fin 1500) (Fin 3) (Fin 2)) =
     Inr \<lparr>predicted_price = Fin 250000, formatted_price = ''$250,000.00'',
          confidence = ''Unknown'', inputs = (Fin 1500, Fin 3, Fin 2)\<rparr> \<and>
   fst (load_model_from_file sample_environment initial_state ''saved_models/a.pkl'' None) =
     (True, ''Model loaded successfully!'') \<and>
   model_metadata state_after_first_load = JNull"
proof -
  have fmt: "formatted_price_of (Fin 250000) = ''$250,000.00''"
    by (simp add: format_defs)
  have pos: "py_gt (Fin 1500) 0" "py_gt (Fin 3) 0" "py_gt (Fin 2) 0"
    by simp_all
  note inst = absent_metadata_unknown_confidence [OF pos,
      of state_after_first_load sample_model "Fin 250000" "''saved_models/a.pkl''"
         sample_environment sample_model None initial_state]
  have a: "loaded_model state_after_first_load = Some sample_model"
    and b: "model_metadata state_after_first_load = JNull"
    by (simp_all add: state_after_first_load_eq)
  have c: "predict0 sample_model [[Fin 1500, Fin 3, Fin 2]] = Inr (Fin 250000)"
    by (simp add: sample_model_def)
  have d: "\<not> endswith ''saved_models/a.pkl'' ''.joblib''" "endswith ''saved_models/a.pkl'' ''.pkl''"
    "pickle_load sample_environment ''saved_models/a.pkl'' = Inr (Some sample_model)"
    by (simp_all add: endswith_def sample_environment_def)
  show ?thesis
    using inst a b c d fmt by simp
qed

subsection \<open>The z-score buckets\<close>

lemma point_score_antimono: "py_leq x y \<Longrightarrow> point_score y \<le> point_score x"
  by (cases x; cases y) (auto simp: point_score_def)

lemma py_abs_cases: "py_abs x = NaN \<or> py_abs x = PInf \<or> (\<exists>r. 0 \<le> r \<and> py_abs x = Fin r)"
  by (cases x) auto

lemma truediv_nonneg:
  assumes "0 < b" and "0 \<le> r"
  shows "py_truediv (Fin r) (Fin b) = Some (if r = 0 then Fin 0 else fl_mag (r / b))"
  using assms by (auto simp: fl_def)

lemma point_score_le: "point_score q \<le> 9 / 10"
  by (simp add: point_score_def)

lemma quotient_mono:
  assumes s: "py_gt s 0" and le: "py_leq (py_abs x) (py_abs y)"
  shows "\<exists>p q. py_truediv (py_abs x) s = Some p \<and> py_truediv (py_abs y) s = Some q \<and>
               point_score q \<le> point_score p"
proof -
  from le have nx: "py_abs x \<noteq> NaN" and ny: "py_abs y \<noteq> NaN"
    by (cases "py_abs x"; cases "py_abs y"; simp)+
  consider (inf) "py_abs x = PInf" | (fin) r where "0 \<le> r" "py_abs x = Fin r"
    using py_abs_cases [of x] nx by blast
  then show ?thesis
  proof cases
    case inf
    then have "py_abs y = PInf" using le ny by (cases "py_abs y") simp_all
    then show ?thesis using inf s by (cases s) auto
  next
    case (fin r)
    show ?thesis
    proof (cases s)
      case (Fin b)
      then have b: "0 < b" using s by simp
      note p = truediv_nonneg [OF b fin(1)]
      consider (yinf) "py_abs y = PInf" | (yfin) t where "0 \<le> t" "py_abs y = Fin t"
        using py_abs_cases [of y] ny by blast
      then show ?thesis
      proof cases
        case yinf
        have "py_leq (if r = 0 then Fin 0 else fl_mag (r / b)) PInf"
          using fl_mag_cases [of "r / b"] by auto
        then have "point_score PInf \<le> point_score (if r = 0 then Fin 0 else fl_mag (r / b))"
          by (rule point_score_antimono)
        then show ?thesis using Fin b fin yinf p by simp
      next
        case (yfin t)
        then have rt: "r \<le> t" using le fin by simp
        have "py_leq (if r = 0 then Fin 0 else fl_mag (r / b))
                     (if t = 0 then Fin 0 else fl_mag (t / b))"
        proof (cases "r = 0")
          case True
          then show ?thesis using fl_mag_cases [of "t / b"] by auto
        next
          case False
          then have "0 < r / b" "r / b \<le> t / b" "t \<noteq> 0"
            using fin(1) rt b by (simp_all add: divide_right_mono)
          then show ?thesis using False fl_mag_mono [of "r / b" "t / b"] by simp
        qed
        then have "point_score (if t = 0 then Fin 0 else fl_mag (t / b)) \<le>
                   point_score (if r = 0 then Fin 0 else fl_mag (r / b))"
          by (rule point_score_antimono)
        then show ?thesis
          using Fin fin yfin p truediv_nonneg [OF b yfin(1)] by simp
      qed
    next
      case PInf
      have px: "py_truediv (py_abs x) s = Some (Fin 0)" using PInf fin by simp
      obtain q where q: "py_truediv (py_abs y) s = Some q" using PInf by simp
      have "point_score q \<le> point_score (Fin 0)"
        using point_score_le [of q] by (simp add: point_score_def)
      then show ?thesis using px q by blast
    qed (use s in auto)
  qed
qed

text \<open>
  The rounding is visible at the thresholds: with the mean 0.1 and the standard deviation
  0.2 the value 0.3 has the z-score 0.9999999999999999, not 1.
\<close>

lemma z_score_rounded_example:
  "z_score (fl (3 / 10)) (fl (1 / 10)) (fl (2 / 10)) = Fin (9007199254740991 / 9007199254740992)"
  by (simp add: z_score_def fl_eval)

text \<open>
  Claim C5. With the mean fixed and a standard deviation \<open>> 0\<close> fixed, a value whose
  absolute deviation from the mean is not larger than that of a second value gets a point
  score that is not smaller: a larger deviation never raises the score. This includes the
  infinities; a comparison with NaN is false, so NaN deviations are outside the premise.
\<close>

theorem z_bucketing_monotone:
  assumes "py_gt std_val 0"
    and "py_leq (py_abs (py_sub v1 mean_val)) (py_abs (py_sub v2 mean_val))"
  shows "point_score (z_score v2 mean_val std_val) \<le> point_score (z_score v1 mean_val std_val)"
proof -
  obtain p q where
    p: "py_truediv (py_abs (py_sub v1 mean_val)) std_val = Some p" and
    q: "py_truediv (py_abs (py_sub v2 mean_val)) std_val = Some q" and
    pq: "point_score q \<le> point_score p"
    using quotient_mono [OF assms] by blast
  have z1: "z_score v1 mean_val std_val = p"
    using assms(1) abs_truediv [OF assms(1), of "py_sub v1 mean_val"] p
    by (auto simp: z_score_def split: option.splits)
  have z2: "z_score v2 mean_val std_val = q"
    using assms(1) abs_truediv [OF assms(1), of "py_sub v2 mean_val"] q
    by (auto simp: z_score_def split: option.splits)
  show ?thesis
    using pq by (simp add: z1 z2)
qed

theorem z_bucketing_monotone_witness:
  "point_score (z_score (Fin 3600) (Fin 2000) (Fin 500)) \<le>
     point_score (z_score (Fin 2000) (Fin 2000) (Fin 500)) \<and>
   point_score (z_score (Fin 2000) (Fin 2000) (Fin 500)) = 9 / 10 \<and>
   point_score (z_score (Fin 3600) (Fin 2000) (Fin 500)) = 3 / 10"
proof -
  have d: "fl 1600 = Fin 1600" by (simp add: fl_eval)
  have "point_score (z_score (Fin 3600) (Fin 2000) (Fin 500)) \<le>
          point_score (z_score (Fin 2000) (Fin 2000) (Fin 500))"
    using z_bucketing_monotone [of "Fin 500" "Fin 2000" "Fin 2000" "Fin 3600"] by (simp add: d)
  moreover have "point_score (z_score (Fin 2000) (Fin 2000) (Fin 500)) = 9 / 10"
    by (simp add: z_score_def point_score_def)
  moreover have "point_score (z_score (Fin 3600) (Fin 2000) (Fin 500)) = 3 / 10"
    by (simp add: z_score_def point_score_def d) (simp add: fl_eval)
  ultimately show ?thesis by simp
qed


subsection \<open>The confidence heuristic against its description\<close>












subsection \<open>The formatted price\<close>

lemma digit_char_props: "d < 10 \<Longrightarrow> is_digit (digit_char d) \<and> digit_value (digit_char d) = d"
proof -
  assume "d < 10"
  then have "d \<in> {0,1,2,3,4,5,6,7,8,9}" by auto
  then show ?thesis
    by (auto simp: digit_char_def is_digit_def digit_value_def)
qed

lemma digits_all_digit: "list_all is_digit (digits n)"
proof (induction n rule: digits.induct)
  case (1 n)
  show ?case
  proof (cases "n < 10")
    case True
    then show ?thesis by (subst digits.simps) (simp add: digit_char_props)
  next
    case False
    then show ?thesis using 1 by (subst digits.simps) (simp add: digit_char_props)
  qed
qed

lemma digits_nonempty: "digits n \<noteq> []"
  by (subst digits.simps) simp

lemma nat_of_digits_snoc: "nat_of_digits (s @ [c]) = 10 * nat_of_digits s + digit_value c"
  by (simp add: nat_of_digits_def)

lemma nat_of_digits_digits: "nat_of_digits (digits n) = n"
proof (induction n rule: digits.induct)
  case (1 n)
  show ?case
  proof (cases "n < 10")
    case True
    then show ?thesis by (subst digits.simps) (simp add: nat_of_digits_def digit_char_props)
  next
    case False
    then show ?thesis using 1
      by (subst digits.simps) (simp add: nat_of_digits_snoc digit_char_props)
  qed
qed

lemma nat_of_digits_two:
  "k < 100 \<Longrightarrow> nat_of_digits (s @ two_digits k) = 100 * nat_of_digits s + k"
proof -
  assume k: "k < 100"
  then have a: "k div 10 < 10" and b: "k mod 10 < 10" by auto
  have "nat_of_digits (s @ two_digits k) =
          10 * (10 * nat_of_digits s + digit_value (digit_char (k div 10))) +
            digit_value (digit_char (k mod 10))"
    by (simp add: two_digits_def nat_of_digits_def)
  then show ?thesis using digit_char_props [OF a] digit_char_props [OF b] by simp
qed

lemma two_digits_all_digit: "k < 100 \<Longrightarrow> list_all is_digit (two_digits k)"
proof -
  assume k: "k < 100"
  then have a: "k div 10 < 10" and b: "k mod 10 < 10" by auto
  show ?thesis using digit_char_props [OF a] digit_char_props [OF b] by (simp add: two_digits_def)
qed

lemma thousands_short: "length s \<le> 3 \<Longrightarrow> thousands s = s"
proof -
  assume "length s \<le> 3"
  then have "length (rev s) \<le> 3" by simp
  then have "group3 (rev s) = rev s"
    by (cases "rev s" rule: group3.cases) simp_all
  then show ?thesis by (simp add: thousands_def)
qed

lemma thousands_snoc3:
  "t \<noteq> [] \<Longrightarrow> thousands (t @ [a, b, c]) = thousands t @ CHR '','' # [a, b, c]"
proof -
  assume "t \<noteq> []"
  then obtain d rest where r: "rev t = d # rest" by (cases "rev t") auto
  then show ?thesis by (simp add: thousands_def)
qed

lemma join_commas_snoc:
  "gs \<noteq> [] \<Longrightarrow> join_commas (gs @ [g]) = join_commas gs @ CHR '','' # g"
  by (induction gs rule: join_commas.induct) auto

lemma thousands_groups:
  "s \<noteq> [] \<Longrightarrow>
     \<exists>groups. thousands s = join_commas groups \<and> concat groups = s \<and> groups \<noteq> [] \<and>
              1 \<le> length (hd groups) \<and> length (hd groups) \<le> 3 \<and>
              list_all (\<lambda>g. length g = 3) (tl groups)"
proof (induction "length s" arbitrary: s rule: less_induct)
  case less
  show ?case
  proof (cases "length s \<le> 3")
    case True
    with less.prems have "thousands s = join_commas [s] \<and> concat [s] = s \<and> [s] \<noteq> [] \<and>
              1 \<le> length (hd [s]) \<and> length (hd [s]) \<le> 3 \<and>
              list_all (\<lambda>g. length g = 3) (tl [s])"
      by (cases s) (simp_all add: thousands_short)
    then show ?thesis by blast
  next
    case False
    define t where "t = take (length s - 3) s"
    define u where "u = drop (length s - 3) s"
    have s: "s = t @ u" by (simp add: t_def u_def)
    have lu: "length u = 3" using False by (simp add: u_def)
    then obtain a b c where u: "u = [a, b, c]"
      by (cases u; cases "tl u"; cases "tl (tl u)") auto
    have tne: "t \<noteq> []" using False by (auto simp: t_def)
    have "length t < length s" using lu s by simp
    from less.hyps [OF this tne] obtain gs where
      gs: "thousands t = join_commas gs" "concat gs = t" "gs \<noteq> []"
          "1 \<le> length (hd gs)" "length (hd gs) \<le> 3" "list_all (\<lambda>g. length g = 3) (tl gs)"
      by blast
    have "thousands s = join_commas (gs @ [u])"
      using thousands_snoc3 [OF tne, of a b c] gs(1,3) by (simp add: s u join_commas_snoc)
    moreover have "concat (gs @ [u]) = s" using gs(2) s by simp
    moreover have "hd (gs @ [u]) = hd gs" using gs(3) by simp
    moreover have "list_all (\<lambda>g. length g = 3) (tl (gs @ [u]))"
      using gs(3,6) lu by (cases gs) simp_all
    ultimately have "thousands s = join_commas (gs @ [u]) \<and> concat (gs @ [u]) = s \<and>
              gs @ [u] \<noteq> [] \<and> 1 \<le> length (hd (gs @ [u])) \<and> length (hd (gs @ [u])) \<le> 3 \<and>
              list_all (\<lambda>g. length g = 3) (tl (gs @ [u]))"
      using gs(4,5) by simp
    then show ?thesis by blast
  qed
qed

lemma round_half_even_near: "0 \<le> x \<Longrightarrow> \<bar>real (round_half_even x) - x\<bar> \<le> 1 / 2"
proof -
  assume x: "0 \<le> x"
  define f where "f = nat \<lfloor>x\<rfloor>"
  have "real f = of_int \<lfloor>x\<rfloor>" using x by (simp add: f_def)
  then have lo: "real f \<le> x" and hi: "x < real f + 1" by linarith+
  have r: "round_half_even x =
             (if x - real f < 1 / 2 then f
              else if 1 / 2 < x - real f then f + 1
              else if even f then f else f + 1)"
    unfolding round_half_even_def Let_def f_def by (rule refl)
  show ?thesis
  proof (cases "x - real f < 1 / 2")
    case True
    then show ?thesis using lo by (simp add: r)
  next
    case False
    then have "\<bar>real (f + 1) - x\<bar> \<le> 1 / 2" using hi by simp
    moreover have "even f \<Longrightarrow> \<not> 1 / 2 < x - real f \<Longrightarrow> \<bar>real f - x\<bar> \<le> 1 / 2"
      using lo by linarith
    ultimately show ?thesis using False by (auto simp: r simp del: of_nat_add of_nat_Suc)
  qed
qed

lemma formatted_price_finite:
  "\<exists>groups d1 d2.
     formatted_price_of (Fin r) =
       ''$'' @ (if r < 0 then ''-'' else []) @ join_commas groups @ ''.'' @ [d1, d2] \<and>
     groups \<noteq> [] \<and> 1 \<le> length (hd groups) \<and> length (hd groups) \<le> 3 \<and>
     list_all (\<lambda>g. length g = 3) (tl groups) \<and>
     list_all is_digit (concat groups @ [d1, d2]) \<and>
     \<bar>real (nat_of_digits (concat groups @ [d1, d2])) / 100 - \<bar>r\<bar>\<bar> \<le> 1 / 200"
proof -
  define cents where "cents = round_half_even (\<bar>r\<bar> * 100)"
  define ds where "ds = digits (cents div 100)"
  have near: "\<bar>real cents - \<bar>r\<bar> * 100\<bar> \<le> 1 / 2"
    unfolding cents_def by (rule round_half_even_near) simp
  have k: "cents mod 100 < 100" by simp
  obtain groups where
    g: "thousands ds = join_commas groups" "concat groups = ds" "groups \<noteq> []"
       "1 \<le> length (hd groups)" "length (hd groups) \<le> 3"
       "list_all (\<lambda>g. length g = 3) (tl groups)"
    using thousands_groups [of ds] digits_nonempty by (auto simp: ds_def)
  have fmt: "formatted_price_of (Fin r) =
        ''$'' @ (if r < 0 then ''-'' else []) @ join_commas groups @ ''.'' @
        [digit_char (cents mod 100 div 10), digit_char (cents mod 100 mod 10)]"
    using g(1) by (simp add: formatted_price_of_def Let_def cents_def ds_def two_digits_def)
  have dig: "list_all is_digit (concat groups @
        [digit_char (cents mod 100 div 10), digit_char (cents mod 100 mod 10)])"
    using digits_all_digit [of "cents div 100"] two_digits_all_digit [OF k]
    by (simp add: g(2) ds_def two_digits_def)
  have "nat_of_digits (concat groups @
        [digit_char (cents mod 100 div 10), digit_char (cents mod 100 mod 10)]) = cents"
    using nat_of_digits_two [OF k, of ds] nat_of_digits_digits [of "cents div 100"]
    by (simp add: g(2) ds_def two_digits_def)
  moreover have "\<bar>real cents / 100 - \<bar>r\<bar>\<bar> \<le> 1 / 200"
    using near by (simp add: field_simps abs_le_iff)
  ultimately have val: "\<bar>real (nat_of_digits (concat groups @
        [digit_char (cents mod 100 div 10), digit_char (cents mod 100 mod 10)])) / 100 - \<bar>r\<bar>\<bar>
        \<le> 1 / 200"
    by simp
  show ?thesis
    using fmt g(3-6) dig val by blast
qed


lemma predict_price_formatted:
  "fst (predict_price st a b c) = Inr res \<Longrightarrow>
     formatted_price res = formatted_price_of (predicted_price res)"
  by (auto simp: predict_price_def Let_def split: option.splits if_splits sum.splits)

text \<open>
  Claim C9, as stated, covers every prediction. The format specification \<open>,.2f\<close> writes
  an infinite value as \<open>inf\<close> and NaN as \<open>nan\<close>, so a model whose prediction is
  infinite gives the formatted price \<open>$inf\<close>, which has neither decimals nor separators.
\<close>

theorem currency_format_counterexample:
  "fst (predict_price
          \<lparr>loaded_model = Some overflowing_model, model_metadata = JNull, model_info = None\<rparr>
          (Fin 1500) (Fin 3) (Fin 2)) =
     Inr \<lparr>predicted_price = PInf, formatted_price = ''$inf'', confidence = ''Unknown'',
          inputs = (Fin 1500, Fin 3, Fin 2)\<rparr>"
  by (simp add: predict_price_def overflowing_model_def calculate_confidence_def
        formatted_price_of_def)

text \<open>
  Claim C9, amended to finite predictions. The formatted price of every result is the
  format of its predicted price. For a finite prediction it is \<open>$\<close>, a minus sign when
  the value is negative, the integer part in comma-separated groups (one to three digits,
  then groups of exactly three), a point and two digits; the digits denote a number of
  cents within half a cent of the magnitude of the prediction. 452301.7 gives
  \<open>$452,301.70\<close>, as the decimal number and as the double nearest to it
  (7770484037700813 / 2^34); the negative zero gives \<open>$-0.00\<close>.
\<close>

theorem finite_prediction_currency_format:
  "(fst (predict_price st a b c) = Inr res \<longrightarrow>
      formatted_price res = formatted_price_of (predicted_price res)) \<and>
   (\<exists>groups d1 d2.
      formatted_price_of (Fin r) =
        ''$'' @ (if r < 0 then ''-'' else []) @ join_commas groups @ ''.'' @ [d1, d2] \<and>
      groups \<noteq> [] \<and> 1 \<le> length (hd groups) \<and> length (hd groups) \<le> 3 \<and>
      list_all (\<lambda>g. length g = 3) (tl groups) \<and>
      list_all is_digit (concat groups @ [d1, d2]) \<and>
      \<bar>real (nat_of_digits (concat groups @ [d1, d2])) / 100 - \<bar>r\<bar>\<bar> \<le> 1 / 200) \<and>
   formatted_price_of (Fin (4523017 / 10)) = ''$452,301.70'' \<and>
   formatted_price_of (Fin (7770484037700813 / 17179869184)) = ''$452,301.70'' \<and>
   formatted_price_of NegZero = ''$-0.00''"
proof (intro conjI)
  show "fst (predict_price st a b c) = Inr res \<longrightarrow>
      formatted_price res = formatted_price_of (predicted_price res)"
    using predict_price_formatted by blast
  show "\<exists>groups d1 d2.
      formatted_price_of (Fin r) =
        ''$'' @ (if r < 0 then ''-'' else []) @ join_commas groups @ ''.'' @ [d1, d2] \<and>
      groups \<noteq> [] \<and> 1 \<le> length (hd groups) \<and> length (hd groups) \<le> 3 \<and>
      list_all (\<lambda>g. length g = 3) (tl groups) \<and>
      list_all is_digit (concat groups @ [d1, d2]) \<and>
      \<bar>real (nat_of_digits (concat groups @ [d1, d2])) / 100 - \<bar>r\<bar>\<bar> \<le> 1 / 200"
    by (rule formatted_price_finite)
  show "formatted_price_of (Fin (4523017 / 10)) = ''$452,301.70''"
    by (simp add: format_defs)
  show "formatted_price_of (Fin (7770484037700813 / 17179869184)) = ''$452,301.70''"
    by (simp add: format_defs)
  show "formatted_price_of NegZero = ''$-0.00''"
    by (simp add: formatted_price_of_def)
qed

theorem finite_prediction_currency_format_witness:
  "formatted_price
     \<lparr>predicted_price = Fin 250000, formatted_price = ''$250,000.00'', confidence = ''Unknown'',
      inputs = (Fin 1500, Fin 3, Fin 2)\<rparr> =
   formatted_price_of (Fin 250000) \<and>
   formatted_price_of (Fin (4523017 / 10)) = ''$452,301.70''"
proof -
  have run: "fst (predict_price sample_state (Fin 1500) (Fin 3) (Fin 2)) =
        Inr \<lparr>predicted_price = Fin 250000, formatted_price = ''$250,000.00'',
             confidence = ''Unknown'', inputs = (Fin 1500, Fin 3, Fin 2)\<rparr>"
    by (simp add: predict_price_def sample_state_def sample_model_def calculate_confidence_def
          format_defs)
  show ?thesis
    using run finite_prediction_currency_format [of sample_state "Fin 1500" "Fin 3" "Fin 2"
        "\<lparr>predicted_price = Fin 250000, formatted_price = ''$250,000.00'',
          confidence = ''Unknown'', inputs = (Fin 1500, Fin 3, Fin 2)\<rparr>" 0]
    by simp
qed

end
